theory Spec2Isabelle
  imports Complex_Main
begin

section \<open>The embedding service of src/services/app.py\<close>

text \<open>
  The module is a FastAPI application with two routes. At import time it binds two
  globals, \<open>MODEL_NAME\<close> and \<open>model\<close>; the handler \<open>health\<close> reads the first, the
  handler \<open>embed\<close> calls \<open>model.encode\<close> and converts each element of what it returns.

  The two libraries the module calls are outside the repository. The sentence encoder is
  a parameter of the model: the constructor \<open>SentenceTransformer\<close> is a function
  \<open>load\<close> from the model name to a handle (or a raised error), and the method
  \<open>encode\<close> is a function \<open>enc\<close> of the handle, the list of sentences and the
  \<open>show_progress_bar\<close> flag, returning a value or a raised error. The request schema
  \<open>Texts\<close> is read as pydantic reads the declaration \<open>texts: list[str]\<close>.
\<close>

subsection \<open>Values\<close>

text \<open>The decoded JSON body of a request. An object keeps its members in document order.\<close>

datatype json =
    JNull
  | JBool bool
  | JNum real
  | JStr string
  | JArr "json list"
  | JObj "(string \<times> json) list"

text \<open>
  What numpy hands out: a scalar (\<open>numpy.float32\<close>) or an array whose items are scalars
  or sub-arrays. The array of shape \<open>(0,)\<close> is \<open>NdArray []\<close>.
\<close>

datatype npval =
    NpFloat real
  | NdArray "npval list"

text \<open>
  The Python values the handlers meet: floats, strings, lists and numpy objects. No
  arithmetic is done on a float, so a float is the number it stands for; the floats
  that stand for no number (NaN and the two infinities) are not among these values.
\<close>

datatype pyval =
    PyFloat real
  | PyStr string
  | PyList "pyval list"
  | PyNumpy npval

text \<open>A handler returns a dict with string keys, kept in the order of the dict display.\<close>

type_synonym pydict = "(string \<times> pyval) list"

text \<open>
  What can be raised: the schema mismatch FastAPI raises before the handler runs, the two
  exceptions the conversion itself can raise, and whatever the encoder library raises
  (named by its class).
\<close>

datatype error =
    ValidationError
  | TypeError
  | AttributeError
  | LibraryError string

subsection \<open>The request schema\<close>

text \<open>\<^verbatim>\<open>class Texts(BaseModel): texts: list[str]\<close>\<close>

record Texts =
  texts :: "string list"

text \<open>
  \<open>json.loads\<close> builds a dict from an object; of two members with one key the later
  one stays.
\<close>

definition dict_get :: "(string \<times> 'v) list \<Rightarrow> string \<Rightarrow> 'v option" where
  "dict_get fs k = map_of (rev fs) k"

text \<open>Running a fallible step over a list, left to right; the first error ends it.\<close>

fun traverse :: "('a \<Rightarrow> error + 'b) \<Rightarrow> 'a list \<Rightarrow> error + 'b list" where
  "traverse f [] = Inr []"
| "traverse f (x # xs) =
     (case f x of
        Inl e \<Rightarrow> Inl e
      | Inr y \<Rightarrow> (case traverse f xs of Inl e \<Rightarrow> Inl e | Inr ys \<Rightarrow> Inr (y # ys)))"

text \<open>
  The field type \<open>str\<close> takes a JSON string and nothing else; \<open>list[str]\<close> takes a JSON
  array whose items all pass \<open>str\<close>. The field has no default, so it is required; the
  class sets no \<open>model_config\<close>, so members under other keys are not looked at. Which
  item failed is not kept: every mismatch is the one error.
\<close>

fun validate_str :: "json \<Rightarrow> error + string" where
  "validate_str (JStr s) = Inr s"
| "validate_str _ = Inl ValidationError"

fun validate_list_str :: "json \<Rightarrow> error + string list" where
  "validate_list_str (JArr xs) = traverse validate_str xs"
| "validate_list_str _ = Inl ValidationError"

fun validate_Texts :: "json \<Rightarrow> error + Texts" where
  "validate_Texts (JObj fs) =
     (case dict_get fs ''texts'' of
        None \<Rightarrow> Inl ValidationError
      | Some v \<Rightarrow>
          (case validate_list_str v of
             Inl e \<Rightarrow> Inl e
           | Inr ts \<Rightarrow> Inr \<lparr>texts = ts\<rparr>))"
| "validate_Texts _ = Inl ValidationError"

subsection \<open>Module globals and the calls to the encoder\<close>

text \<open>
  \<^verbatim>\<open>MODEL_NAME = "all-MiniLM-L6-v2"\<close>
  \<^verbatim>\<open>model = SentenceTransformer(MODEL_NAME)\<close>
  The handle is of a type \<open>'m\<close> the module knows nothing about.
\<close>

record 'm globals =
  MODEL_NAME :: string
  model :: 'm

text \<open>
  The module body runs once, when the process imports it. It reads nothing of the
  process environment \<open>environ\<close>. If the constructor raises, the import fails and
  there is no service.
\<close>

definition startup ::
  "(string \<Rightarrow> error + 'm) \<Rightarrow> (string \<rightharpoonup> string) \<Rightarrow> error + 'm globals" where
  "startup load environ =
     (let name = ''all-MiniLM-L6-v2'' in
      case load name of
        Inl e \<Rightarrow> Inl e
      | Inr m \<Rightarrow> Inr \<lparr>MODEL_NAME = name, model = m\<rparr>)"

text \<open>One call of \<open>encode\<close>: the handle it was called on, the sentences, the flag.\<close>

datatype 'm call = Encode 'm "string list" bool

text \<open>
  What running a handler amounts to: the dict it returns or the error it raises, the
  globals afterwards, and the calls it made to the encoder, in order.
\<close>

record 'm outcome =
  result :: "error + pydict"
  globals_after :: "'m globals"
  calls :: "'m call list"

type_synonym 'm encoder = "'m \<Rightarrow> string list \<Rightarrow> bool \<Rightarrow> error + pyval"

subsection \<open>The conversion to plain lists\<close>

text \<open>\<open>hasattr(e, 'tolist')\<close>: numpy arrays and numpy scalars have the method.\<close>

fun hasattr_tolist :: "pyval \<Rightarrow> bool" where
  "hasattr_tolist (PyNumpy a) = True"
| "hasattr_tolist _ = False"

text \<open>
  \<open>ndarray.tolist()\<close> converts at every depth: sub-arrays become lists and scalars
  become Python floats.
\<close>

fun tolist :: "npval \<Rightarrow> pyval" where
  "tolist (NpFloat r) = PyFloat r"
| "tolist (NdArray xs) = PyList (map tolist xs)"

fun call_tolist :: "pyval \<Rightarrow> error + pyval" where
  "call_tolist (PyNumpy a) = Inr (tolist a)"
| "call_tolist _ = Inl AttributeError"

text \<open>
  Iterating a value: a list gives its items, an array its items along the first axis
  (still numpy objects), a string its characters; a float or a numpy scalar is not
  iterable.
\<close>

fun py_iter :: "pyval \<Rightarrow> error + pyval list" where
  "py_iter (PyList xs) = Inr xs"
| "py_iter (PyNumpy (NdArray xs)) = Inr (map PyNumpy xs)"
| "py_iter (PyNumpy (NpFloat r)) = Inl TypeError"
| "py_iter (PyStr s) = Inr (map (\<lambda>c. PyStr [c]) s)"
| "py_iter (PyFloat r) = Inl TypeError"

text \<open>\<open>list(e)\<close>\<close>

definition py_list :: "pyval \<Rightarrow> error + pyval" where
  "py_list e = (case py_iter e of Inl err \<Rightarrow> Inl err | Inr xs \<Rightarrow> Inr (PyList xs))"

text \<open>\<^verbatim>\<open>e.tolist() if hasattr(e, 'tolist') else list(e)\<close>\<close>

definition convert :: "pyval \<Rightarrow> error + pyval" where
  "convert e = (if hasattr_tolist e then call_tolist e else py_list e)"

subsection \<open>The handlers\<close>

text \<open>
  \<^verbatim>\<open>def health(): return {"status": "ok", "model": MODEL_NAME}\<close>
\<close>

definition health :: "'m globals \<Rightarrow> 'm outcome" where
  "health g =
     \<lparr>result = Inr [(''status'', PyStr ''ok''), (''model'', PyStr (MODEL_NAME g))],
      globals_after = g,
      calls = []\<rparr>"

text \<open>
  \<^verbatim>\<open>embeddings = model.encode(payload.texts, show_progress_bar=False)\<close>
  \<^verbatim>\<open>return {"embeddings": [e.tolist() if hasattr(e, 'tolist') else list(e) for e in embeddings]}\<close>
  There is no \<open>try\<close> in the handler: an error of the call, of the iteration or of a
  conversion is the handler's error. The source's \<open>embed\<close> is \<open>embed_handler\<close>
  here, the plain name being a constant of HOL.
\<close>

definition embed_handler :: "'m encoder \<Rightarrow> 'm globals \<Rightarrow> Texts \<Rightarrow> 'm outcome" where
  "embed_handler enc g payload =
     \<lparr>result =
        (case enc (model g) (texts payload) False of
           Inl e \<Rightarrow> Inl e
         | Inr embeddings \<Rightarrow>
             (case py_iter embeddings of
                Inl e \<Rightarrow> Inl e
              | Inr es \<Rightarrow>
                  (case traverse convert es of
                     Inl e \<Rightarrow> Inl e
                   | Inr rows \<Rightarrow> Inr [(''embeddings'', PyList rows)]))),
      globals_after = g,
      calls = [Encode (model g) (texts payload) False]\<rparr>"

text \<open>
  \<^verbatim>\<open>@app.post("/embed")\<close> with the parameter \<open>payload: Texts\<close>: FastAPI validates the
  body against the schema and calls the handler only with a valid payload.
\<close>

definition post_embed :: "'m encoder \<Rightarrow> 'm globals \<Rightarrow> json \<Rightarrow> 'm outcome" where
  "post_embed enc g body =
     (case validate_Texts body of
        Inl e \<Rightarrow> \<lparr>result = Inl e, globals_after = g, calls = []\<rparr>
      | Inr payload \<Rightarrow> embed_handler enc g payload)"

text \<open>
  What FastAPI can turn into JSON once the handler has returned: floats, strings and
  lists of such. A numpy object left in the dict makes the encoding raise.
\<close>

fun json_encodable :: "pyval \<Rightarrow> bool" where
  "json_encodable (PyFloat r) = True"
| "json_encodable (PyStr s) = True"
| "json_encodable (PyList xs) = list_all json_encodable xs"
| "json_encodable (PyNumpy a) = False"

text \<open>
  The status FastAPI answers with: 200 for a returned dict it can encode, 422 for a
  schema mismatch, 500 for any other exception, that of the encoding included.
\<close>

fun http_status :: "error + pydict \<Rightarrow> nat" where
  "http_status (Inr d) = (if list_all (\<lambda>kv. json_encodable (snd kv)) d then 200 else 500)"
| "http_status (Inl ValidationError) = 422"
| "http_status (Inl e) = 500"


subsection \<open>A run of the service\<close>

datatype request = GET_health | POST_embed json

fun handle :: "'m encoder \<Rightarrow> 'm globals \<Rightarrow> request \<Rightarrow> 'm outcome" where
  "handle enc g GET_health = health g"
| "handle enc g (POST_embed body) = post_embed enc g body"

text \<open>The globals after a sequence of requests has been served, one after the other.\<close>

fun state_after :: "'m encoder \<Rightarrow> 'm globals \<Rightarrow> request list \<Rightarrow> 'm globals" where
  "state_after enc g [] = g"
| "state_after enc g (r # rs) = state_after enc (globals_after (handle enc g r)) rs"

subsection \<open>A library that writes to the model object\<close>

text \<open>
  An \<open>encoder\<close> is a function of the handle, so it says nothing about what the call
  does to the object behind the handle. For that question \<open>encode\<close> is taken as a
  method has to be: it returns or raises, and it leaves the object in some state. Here
  \<open>'m\<close> is the state of the model object and \<open>model g\<close> the state of the object the
  global names; the name itself is never assigned to by a handler, the object is passed
  to \<open>encode\<close> and to nothing else.
\<close>

type_synonym 'm library = "'m \<Rightarrow> string list \<Rightarrow> bool \<Rightarrow> (error + pyval) \<times> 'm"

definition returned :: "'m library \<Rightarrow> 'm encoder" where
  "returned lib m ts flag = fst (lib m ts flag)"

text \<open>
  The handler of the source on such a library: what it returns and what it calls are
  as before, and the object is afterwards as the one call of \<open>encode\<close> left it. The
  conversion works on what \<open>encode\<close> returned, not on the model.
\<close>

definition embed_handler_obj :: "'m library \<Rightarrow> 'm globals \<Rightarrow> Texts \<Rightarrow> 'm outcome" where
  "embed_handler_obj lib g payload =
     (embed_handler (returned lib) g payload)
       \<lparr>globals_after := g\<lparr>model := snd (lib (model g) (texts payload) False)\<rparr>\<rparr>"

definition post_embed_obj :: "'m library \<Rightarrow> 'm globals \<Rightarrow> json \<Rightarrow> 'm outcome" where
  "post_embed_obj lib g body =
     (case validate_Texts body of
        Inl e \<Rightarrow> \<lparr>result = Inl e, globals_after = g, calls = []\<rparr>
      | Inr payload \<Rightarrow> embed_handler_obj lib g payload)"



subsection \<open>The conversion the specification asks for\<close>

text \<open>
  The specification describes the conversion as one function from a numeric array to a
  plain nested sequence of floating-point numbers, fit for JSON encoding. \<open>plain\<close> is
  that target: a number or a sequence of plain values, with no numpy object in it.
  \<open>plain_of_array\<close> is the function, \<open>py_of_plain\<close> the Python value a plain value is.
\<close>

datatype plain =
    Num real
  | Seq "plain list"

fun plain_of_array :: "npval \<Rightarrow> plain" where
  "plain_of_array (NpFloat r) = Num r"
| "plain_of_array (NdArray xs) = Seq (map plain_of_array xs)"

fun py_of_plain :: "plain \<Rightarrow> pyval" where
  "py_of_plain (Num r) = PyFloat r"
| "py_of_plain (Seq xs) = PyList (map py_of_plain xs)"

text \<open>
  The length of a vector: of a one-dimensional array of scalars on the numpy side, of a
  list of floats on the Python side. Anything else is not a vector.
\<close>

fun is_scalar :: "npval \<Rightarrow> bool" where
  "is_scalar (NpFloat r) = True"
| "is_scalar (NdArray xs) = False"

fun np_vector_dim :: "npval \<Rightarrow> nat option" where
  "np_vector_dim (NdArray xs) = (if list_all is_scalar xs then Some (length xs) else None)"
| "np_vector_dim (NpFloat r) = None"

fun is_float :: "pyval \<Rightarrow> bool" where
  "is_float (PyFloat r) = True"
| "is_float _ = False"

fun py_vector_dim :: "pyval \<Rightarrow> nat option" where
  "py_vector_dim (PyList xs) = (if list_all is_float xs then Some (length xs) else None)"
| "py_vector_dim _ = None"

subsection \<open>A sample process\<close>

text \<open>
  Concrete instances are run on a process whose handle is the unit value. The sample
  encoder of dimension \<open>d\<close> returns, as the library does by default, one array with a
  row per sentence; the row of a sentence is \<open>d\<close> copies of its length. The failing
  encoder raises on every call.
\<close>

definition sample_load :: "string \<Rightarrow> error + unit" where
  "sample_load name = Inr ()"

definition sample_globals :: "unit globals" where
  "sample_globals = \<lparr>MODEL_NAME = ''all-MiniLM-L6-v2'', model = ()\<rparr>"

definition sample_encoder :: "nat \<Rightarrow> unit encoder" where
  "sample_encoder d m ts flag =
     Inr (PyNumpy (NdArray (map (\<lambda>s. NdArray (replicate d (NpFloat (real (length s))))) ts)))"

definition failing_encoder :: "unit encoder" where
  "failing_encoder m ts flag = Inl (LibraryError ''RuntimeError'')"





section \<open>Properties\<close>

subsection \<open>The globals are only read\<close>

lemma globals_after_health: "globals_after (health g) = g"
  by (simp add: health_def)

lemma globals_after_embed: "globals_after (embed_handler enc g p) = g"
  by (simp add: embed_handler_def)

lemma globals_after_post_embed: "globals_after (post_embed enc g body) = g"
  by (simp add: post_embed_def globals_after_embed split: sum.split)

lemma globals_after_handle: "globals_after (handle enc g r) = g"
  by (cases r) (simp_all add: globals_after_health globals_after_post_embed)

lemma state_after_same: "state_after enc g rs = g"
  by (induction rs) (simp_all add: globals_after_handle)





lemma post_embed_obj_reading:
  "post_embed_obj (\<lambda>m ts flag. (enc m ts flag, m)) g body = post_embed enc g body"
proof -
  have "returned (\<lambda>m ts flag. (enc m ts flag, m)) = enc"
    by (simp add: returned_def fun_eq_iff)
  then show ?thesis
    by (simp add: post_embed_obj_def post_embed_def embed_handler_obj_def embed_handler_def
        split: sum.splits)
qed

subsection \<open>What the schema accepts\<close>

lemma traverse_validate_str_map: "traverse validate_str (map JStr ts) = Inr ts"
  by (induction ts) simp_all

lemma traverse_validate_str_Inr: "traverse validate_str xs = Inr ts \<Longrightarrow> xs = map JStr ts"
proof (induction xs arbitrary: ts)
  case Nil
  then show ?case by simp
next
  case (Cons x xs)
  then show ?case
    by (cases x) (auto split: sum.splits)
qed

lemma traverse_validate_str_error:
  "traverse validate_str xs = Inl e \<Longrightarrow> e = ValidationError"
  by (induction xs arbitrary: e) (auto split: sum.splits elim: validate_str.elims)

lemma validate_list_str_iff: "validate_list_str v = Inr ts \<longleftrightarrow> v = JArr (map JStr ts)"
  by (cases v) (auto simp: traverse_validate_str_map dest: traverse_validate_str_Inr)

lemma validate_list_str_error: "validate_list_str v = Inl e \<Longrightarrow> e = ValidationError"
  by (cases v) (auto dest: traverse_validate_str_error)

lemma validate_Texts_iff:
  "validate_Texts body = Inr p \<longleftrightarrow>
     (\<exists>fs. body = JObj fs \<and> dict_get fs ''texts'' = Some (JArr (map JStr (texts p))))"
proof (cases body)
  case (JObj fs)
  show ?thesis
  proof (cases "dict_get fs ''texts''")
    case None
    with JObj show ?thesis by simp
  next
    case (Some v)
    show ?thesis
    proof (cases "validate_list_str v")
      case (Inl e)
      then have "v \<noteq> JArr (map JStr (texts p))"
        using validate_list_str_iff [of v "texts p"] by auto
      with JObj Some Inl show ?thesis by simp
    next
      case (Inr ts)
      then have v: "v = JArr (map JStr ts)"
        by (simp add: validate_list_str_iff)
      have "(\<lparr>texts = ts\<rparr> = p) = (map JStr ts = map JStr (texts p))"
        by (cases p) (auto simp: inj_map_eq_map inj_on_def)
      with JObj Some Inr v show ?thesis by simp
    qed
  qed
qed simp_all

lemma validate_Texts_error: "validate_Texts body = Inl e \<Longrightarrow> e = ValidationError"
  by (cases body) (auto split: option.splits sum.splits dest: validate_list_str_error)

subsection \<open>Converting the rows of an array\<close>

lemma traverse_convert_numpy: "traverse convert (map PyNumpy rows) = Inr (map tolist rows)"
  by (induction rows) (simp_all add: convert_def)

lemma tolist_plain: "tolist a = py_of_plain (plain_of_array a)"
  by (induction a) simp_all

lemma embed_numpy_rows:
  assumes "enc (model g) (texts p) False = Inr (PyNumpy (NdArray rows))"
  shows "result (embed_handler enc g p) = Inr [(''embeddings'', PyList (map tolist rows))]"
  using assms by (simp add: embed_handler_def traverse_convert_numpy)

lemma post_embed_valid: "validate_Texts body = Inr p \<Longrightarrow> post_embed enc g body = embed_handler enc g p"
  by (simp add: post_embed_def)

lemma py_vector_dim_tolist: "np_vector_dim r = Some d \<Longrightarrow> py_vector_dim (tolist r) = Some d"
proof (cases r)
  case (NdArray xs)
  assume "np_vector_dim r = Some d"
  with NdArray have sc: "list_all is_scalar xs" and d: "length xs = d"
    by (auto split: if_splits)
  have "list_all is_float (map tolist xs)"
    using sc by (induction xs) (auto elim: is_scalar.elims)
  with NdArray d show ?thesis by simp
qed simp

subsection \<open>The embed operation on a valid request\<close>




text \<open>
  C2. For every valid request, when every row the encoder returns is a vector of \<open>d\<close>
  scalars, every inner vector of the response is a list of \<open>d\<close> floats. The instance
  below is the input \<open>["hello", "world"]\<close> on an encoder of dimension 384: two
  vectors, each of length 384.
\<close>

theorem embed_vectors_have_model_dimension:
  assumes "validate_Texts body = Inr p"
    and "enc (model g) (texts p) False = Inr (PyNumpy (NdArray rows))"
    and "length rows = length (texts p)"
    and "\<forall>r \<in> set rows. np_vector_dim r = Some d"
  shows "\<exists>out. result (post_embed enc g body) = Inr [(''embeddings'', PyList out)]
    \<and> length out = length (texts p)
    \<and> (\<forall>v \<in> set out. py_vector_dim v = Some d)"
proof (intro exI conjI)
  show "result (post_embed enc g body) = Inr [(''embeddings'', PyList (map tolist rows))]"
    using assms(1,2) by (simp add: post_embed_valid embed_numpy_rows)
  show "length (map tolist rows) = length (texts p)"
    using assms(3) by simp
  show "\<forall>v \<in> set (map tolist rows). py_vector_dim v = Some d"
    using assms(4) by (auto intro: py_vector_dim_tolist)
qed

theorem embed_vectors_have_model_dimension_witness:
  "\<exists>u v. result (post_embed (sample_encoder 384) sample_globals
      (JObj [(''texts'', JArr [JStr ''hello'', JStr ''world''])]))
     = Inr [(''embeddings'', PyList [u, v])]
   \<and> py_vector_dim u = Some 384 \<and> py_vector_dim v = Some 384"
proof -
  have rows: "\<forall>r \<in> set [NdArray (replicate 384 (NpFloat 5)), NdArray (replicate 384 (NpFloat 5))].
      np_vector_dim r = Some 384"
    by (simp add: list_all_iff)
  from embed_vectors_have_model_dimension [of "JObj [(''texts'', JArr [JStr ''hello'', JStr ''world''])]"
      "\<lparr>texts = [''hello'', ''world'']\<rparr>" "sample_encoder 384" sample_globals
      "[NdArray (replicate 384 (NpFloat 5)), NdArray (replicate 384 (NpFloat 5))]" 384, OF _ _ _ rows]
  obtain out where r: "result (post_embed (sample_encoder 384) sample_globals
      (JObj [(''texts'', JArr [JStr ''hello'', JStr ''world''])])) = Inr [(''embeddings'', PyList out)]"
    and l: "length out = 2" and d: "\<forall>v \<in> set out. py_vector_dim v = Some 384"
    by (auto simp: dict_get_def sample_encoder_def sample_globals_def)
  from l obtain u v where "out = [u, v]"
    by (cases out; cases "tl out") auto
  with r d show ?thesis by auto
qed




subsection \<open>Schema validation\<close>

text \<open>
  C3. A body in which \<open>texts\<close> is absent or is not an array of strings is answered
  with the validation error, status 422, and no call of the encoder has been made; a
  body in which \<open>texts\<close> is an array of strings passes validation and the encoder is
  called on exactly these strings.
\<close>

theorem schema_mismatch_rejected_before_encode:
  "((\<forall>fs ts. body = JObj fs \<longrightarrow> dict_get fs ''texts'' \<noteq> Some (JArr (map JStr ts))) \<longrightarrow>
      post_embed enc g body
        = \<lparr>result = Inl ValidationError, globals_after = g, calls = []\<rparr>
      \<and> http_status (result (post_embed enc g body)) = 422)
   \<and> (\<forall>fs ts. body = JObj fs \<and> dict_get fs ''texts'' = Some (JArr (map JStr ts)) \<longrightarrow>
      validate_Texts body = Inr \<lparr>texts = ts\<rparr>
      \<and> calls (post_embed enc g body) = [Encode (model g) ts False])"
proof (intro conjI impI allI)
  assume bad: "\<forall>fs ts. body = JObj fs \<longrightarrow> dict_get fs ''texts'' \<noteq> Some (JArr (map JStr ts))"
  have "\<exists>e. validate_Texts body = Inl e"
  proof (cases "validate_Texts body")
    case (Inr p)
    with bad show ?thesis by (auto simp: validate_Texts_iff)
  qed simp
  then have v: "validate_Texts body = Inl ValidationError"
    by (auto dest: validate_Texts_error)
  then show "post_embed enc g body
      = \<lparr>result = Inl ValidationError, globals_after = g, calls = []\<rparr>"
    by (simp add: post_embed_def)
  from v show "http_status (result (post_embed enc g body)) = 422"
    by (simp add: post_embed_def)
next
  fix fs ts
  assume ok: "body = JObj fs \<and> dict_get fs ''texts'' = Some (JArr (map JStr ts))"
  then show v: "validate_Texts body = Inr \<lparr>texts = ts\<rparr>"
    by (simp add: traverse_validate_str_map)
  then show "calls (post_embed enc g body) = [Encode (model g) ts False]"
    by (simp add: post_embed_def embed_handler_def)
qed

theorem schema_mismatch_rejected_before_encode_witness:
  "post_embed (sample_encoder 2) sample_globals (JObj [(''texts'', JStr ''hello'')])
     = \<lparr>result = Inl ValidationError, globals_after = sample_globals, calls = []\<rparr>
   \<and> post_embed (sample_encoder 2) sample_globals (JObj [(''text'', JArr [JStr ''hello''])])
     = \<lparr>result = Inl ValidationError, globals_after = sample_globals, calls = []\<rparr>
   \<and> calls (post_embed (sample_encoder 2) sample_globals (JObj [(''texts'', JArr [JStr ''hello''])]))
     = [Encode () [''hello''] False]"
proof -
  let ?wrong_type = "JObj [(''texts'', JStr ''hello'')]"
  let ?missing = "JObj [(''text'', JArr [JStr ''hello''])]"
  let ?good = "JObj [(''texts'', JArr [JStr ''hello''])]"
  have h1: "\<forall>fs ts. ?wrong_type = JObj fs \<longrightarrow> dict_get fs ''texts'' \<noteq> Some (JArr (map JStr ts))"
    by (simp add: dict_get_def)
  have h2: "\<forall>fs ts. ?missing = JObj fs \<longrightarrow> dict_get fs ''texts'' \<noteq> Some (JArr (map JStr ts))"
    by (simp add: dict_get_def)
  have h3: "?good = JObj [(''texts'', JArr [JStr ''hello''])]
      \<and> dict_get [(''texts'', JArr [JStr ''hello''])] ''texts'' = Some (JArr (map JStr [''hello'']))"
    by (simp add: dict_get_def)
  from h1 schema_mismatch_rejected_before_encode [of ?wrong_type "sample_encoder 2" sample_globals]
  have r1: "post_embed (sample_encoder 2) sample_globals ?wrong_type
      = \<lparr>result = Inl ValidationError, globals_after = sample_globals, calls = []\<rparr>"
    by blast
  from h2 schema_mismatch_rejected_before_encode [of ?missing "sample_encoder 2" sample_globals]
  have r2: "post_embed (sample_encoder 2) sample_globals ?missing
      = \<lparr>result = Inl ValidationError, globals_after = sample_globals, calls = []\<rparr>"
    by blast
  from h3 schema_mismatch_rejected_before_encode [of ?good "sample_encoder 2" sample_globals]
  have r3: "calls (post_embed (sample_encoder 2) sample_globals ?good)
      = [Encode (model sample_globals) [''hello''] False]"
    by blast
  from r1 r2 r3 show ?thesis
    by (simp add: sample_globals_def)
qed

text \<open>
  C10. A body with a well-typed \<open>texts\<close> member and further members is not rejected:
  it passes validation, the handler is run on its texts and the encoder is called on
  them; the outcome is that of the body with the \<open>texts\<close> member alone.
\<close>

theorem extra_fields_ignored:
  assumes "dict_get fs ''texts'' = Some (JArr (map JStr ts))"
  shows "validate_Texts (JObj fs) = Inr \<lparr>texts = ts\<rparr>
    \<and> post_embed enc g (JObj fs) = embed_handler enc g \<lparr>texts = ts\<rparr>
    \<and> calls (post_embed enc g (JObj fs)) = [Encode (model g) ts False]
    \<and> post_embed enc g (JObj fs) = post_embed enc g (JObj [(''texts'', JArr (map JStr ts))])"
proof -
  have a: "validate_Texts (JObj fs) = Inr \<lparr>texts = ts\<rparr>"
    using assms by (simp add: traverse_validate_str_map)
  have b: "validate_Texts (JObj [(''texts'', JArr (map JStr ts))]) = Inr \<lparr>texts = ts\<rparr>"
    by (simp add: dict_get_def traverse_validate_str_map)
  have c: "calls (embed_handler enc g \<lparr>texts = ts\<rparr>) = [Encode (model g) ts False]"
    by (simp add: embed_handler_def)
  from a b c show ?thesis by (simp add: post_embed_def)
qed

theorem extra_fields_ignored_witness:
  "post_embed (sample_encoder 2) sample_globals
      (JObj [(''texts'', JArr [JStr ''a'']), (''lang'', JStr ''en''), (''top_k'', JNum 3)])
   = \<lparr>result = Inr [(''embeddings'', PyList [PyList [PyFloat 1, PyFloat 1]])],
      globals_after = sample_globals, calls = [Encode () [''a''] False]\<rparr>
   \<and> post_embed (sample_encoder 2) sample_globals
      (JObj [(''texts'', JArr [JStr ''a'']), (''lang'', JStr ''en''), (''top_k'', JNum 3)])
   = post_embed (sample_encoder 2) sample_globals (JObj [(''texts'', JArr [JStr ''a''])])"
proof -
  let ?fs = "[(''texts'', JArr [JStr ''a'']), (''lang'', JStr ''en''), (''top_k'', JNum 3)]"
  have h: "dict_get ?fs ''texts'' = Some (JArr (map JStr [''a'']))"
    by (simp add: dict_get_def)
  have e: "embed_handler (sample_encoder 2) sample_globals \<lparr>texts = [''a'']\<rparr>
      = \<lparr>result = Inr [(''embeddings'', PyList [PyList [PyFloat 1, PyFloat 1]])],
         globals_after = sample_globals, calls = [Encode () [''a''] False]\<rparr>"
    by (simp add: embed_handler_def sample_encoder_def sample_globals_def convert_def
        numeral_2_eq_2)
  from extra_fields_ignored [OF h, of "sample_encoder 2" sample_globals]
  have p1: "post_embed (sample_encoder 2) sample_globals (JObj ?fs)
        = embed_handler (sample_encoder 2) sample_globals \<lparr>texts = [''a'']\<rparr>"
    and p2: "post_embed (sample_encoder 2) sample_globals (JObj ?fs)
        = post_embed (sample_encoder 2) sample_globals (JObj [(''texts'', JArr (map JStr [''a'']))])"
    by blast+
  from p1 e p2 show ?thesis by simp
qed

subsection \<open>Failures of the encoder\<close>

text \<open>
  C6. When the call of the encoder raises, the embed operation raises that same error:
  there is no response, the encoder has been called exactly once, and the globals are
  as before.
\<close>

theorem embed_propagates_encode_failure:
  assumes "validate_Texts body = Inr p" and "enc (model g) (texts p) False = Inl e"
  shows "post_embed enc g body
      = \<lparr>result = Inl e, globals_after = g, calls = [Encode (model g) (texts p) False]\<rparr>"
  using assms by (simp add: post_embed_def embed_handler_def)

theorem embed_propagates_encode_failure_witness:
  "post_embed failing_encoder sample_globals (JObj [(''texts'', JArr [JStr ''a'', JStr ''b''])])
      = \<lparr>result = Inl (LibraryError ''RuntimeError''), globals_after = sample_globals,
         calls = [Encode () [''a'', ''b''] False]\<rparr>"
  using embed_propagates_encode_failure
    [of "JObj [(''texts'', JArr [JStr ''a'', JStr ''b''])]" "\<lparr>texts = [''a'', ''b'']\<rparr>"
        failing_encoder sample_globals "LibraryError ''RuntimeError''"]
  by (simp add: dict_get_def failing_encoder_def sample_globals_def)

subsection \<open>The conversion\<close>

text \<open>
  C7, as stated, asks the two branches of the conversion to agree on a numeric array.
  They do not: on the one-element array, \<open>tolist()\<close> gives a list of a Python float
  while \<open>list()\<close> gives a list that still holds the numpy scalar.
\<close>

theorem fallback_differs_on_array_counterexample:
  "call_tolist (PyNumpy (NdArray [NpFloat 1])) = Inr (PyList [PyFloat 1])
   \<and> py_list (PyNumpy (NdArray [NpFloat 1])) = Inr (PyList [PyNumpy (NpFloat 1)])
   \<and> call_tolist (PyNumpy (NdArray [NpFloat 1])) \<noteq> py_list (PyNumpy (NdArray [NpFloat 1]))"
  by (simp add: py_list_def)

text \<open>
  C7, amended. Every numpy object has the to-list capability, so the conversion takes
  that branch on it, and the result is the one the single conversion function of the
  specification gives: a plain nested sequence of floats. The \<open>list()\<close> branch is
  taken on a Python list, and on a plain nested sequence of floats it returns that
  sequence.
\<close>

theorem convert_is_plain_conversion:
  "hasattr_tolist (PyNumpy a)
   \<and> convert (PyNumpy a) = Inr (py_of_plain (plain_of_array a))
   \<and> \<not> hasattr_tolist (PyList (map py_of_plain xs))
   \<and> convert (PyList (map py_of_plain xs)) = Inr (PyList (map py_of_plain xs))"
  by (simp add: convert_def py_list_def tolist_plain)

subsection \<open>The health operation and the globals\<close>

text \<open>
  C5. In a process that has started, whatever the environment and whatever requests were
  served before, the health operation returns exactly the status \<open>ok\<close> and the
  model name written in the module, calls nothing and leaves the globals as they
  were.
\<close>

theorem health_fixed_response:
  assumes "startup load environ = Inr g"
  shows "health (state_after enc g reqs)
      = \<lparr>result = Inr [(''status'', PyStr ''ok''), (''model'', PyStr ''all-MiniLM-L6-v2'')],
         globals_after = g, calls = []\<rparr>"
proof -
  from assms have "MODEL_NAME g = ''all-MiniLM-L6-v2''"
    by (auto simp: startup_def Let_def split: sum.splits)
  then show ?thesis
    by (simp add: state_after_same health_def)
qed

theorem health_fixed_response_witness:
  "startup sample_load [''MODEL_NAME'' \<mapsto> ''other-model''] = Inr sample_globals
   \<and> health (state_after (sample_encoder 2) sample_globals
        [POST_embed JNull, GET_health, POST_embed (JObj [(''texts'', JArr [JStr ''a''])])])
      = \<lparr>result = Inr [(''status'', PyStr ''ok''), (''model'', PyStr ''all-MiniLM-L6-v2'')],
         globals_after = sample_globals, calls = []\<rparr>"
proof -
  have s: "startup sample_load [''MODEL_NAME'' \<mapsto> ''other-model''] = Inr sample_globals"
    by (simp add: startup_def sample_load_def sample_globals_def)
  from s health_fixed_response [OF s, of "sample_encoder 2"
      "[POST_embed JNull, GET_health, POST_embed (JObj [(''texts'', JArr [JStr ''a''])])]"]
  show ?thesis by simp
qed




text \<open>
  C9. With the encoder a fixed function, two embed requests that carry equal texts get
  equal results, also under globals that agree on the model handle only, and also after
  any sequence of requests served in between.
\<close>

theorem embed_deterministic:
  assumes "validate_Texts body = Inr p" and "validate_Texts body' = Inr p'"
    and "texts p = texts p'" and "model g = model g'"
  shows "result (post_embed enc g body) = result (post_embed enc g' body')
    \<and> calls (post_embed enc g body) = calls (post_embed enc g' body')
    \<and> result (post_embed enc (state_after enc g reqs) body) = result (post_embed enc g body)"
  using assms by (simp add: post_embed_def embed_handler_def state_after_same)

theorem embed_deterministic_witness:
  "result (post_embed (sample_encoder 2) sample_globals (JObj [(''texts'', JArr [JStr ''a''])]))
   = result (post_embed (sample_encoder 2) \<lparr>MODEL_NAME = ''renamed'', model = ()\<rparr>
       (JObj [(''id'', JNum 7), (''texts'', JArr [JStr ''a''])]))"
  using embed_deterministic
    [of "JObj [(''texts'', JArr [JStr ''a''])]" "\<lparr>texts = [''a'']\<rparr>"
        "JObj [(''id'', JNum 7), (''texts'', JArr [JStr ''a''])]" "\<lparr>texts = [''a'']\<rparr>"
        sample_globals "\<lparr>MODEL_NAME = ''renamed'', model = ()\<rparr>" "sample_encoder 2" "[]"]
  by (simp add: dict_get_def sample_globals_def)

end
